theory Spec2Isabelle
  imports Complex_Main "HOL-Library.Log_Nat" "HOL-Library.Word"
begin

section \<open>The fan speed controller \<open>pfand.c\<close>\<close>

text \<open>
  The program is one C file: \<open>getTemp\<close> reads the CPU temperature from a sysfs file,
  \<open>setFanSpeed\<close> writes a duty cycle to the PWM device, and \<open>main\<close> daemonises and then
  runs the control loop for ever. The embedding follows that structure. What the operating
  system answers (whether a file opens, what \<open>fscanf\<close> stores, what \<open>fork\<close> returns) is an
  input of the model; what the program does to the outside (writes, sleeps, closed
  descriptors, calls of \<open>setFanSpeed\<close>) is a list of events in program order.
\<close>

subsection \<open>Compile-time constants\<close>

text \<open>
  The three PWM macros are written with a decimal point and so are \<open>double\<close> constants;
  the temperatures and times are \<open>int\<close> constants.
\<close>

definition MIN_PWM :: real where "MIN_PWM = 50"
definition MAX_PWM :: real where "MAX_PWM = 100"
definition KICK_PWM :: real where "KICK_PWM = 70"
definition KICK_TIME :: int where "KICK_TIME = 500000"
definition LOW_TEMP :: int where "LOW_TEMP = 55"
definition HIGH_TEMP :: int where "HIGH_TEMP = 75"
definition LOOPTIME :: int where "LOOPTIME = 2"
definition RUNONTIME :: int where "RUNONTIME = 30"

text \<open>\<open>RUNONTIME/LOOPTIME\<close> is C integer division; both operands are positive, where
  truncation and \<open>div\<close> agree.\<close>

definition RUNONLOOPS :: int where "RUNONLOOPS = RUNONTIME div LOOPTIME"

text \<open>The two exit codes of \<open>stdlib.h\<close>, with their values on Linux.\<close>

definition EXIT_SUCCESS :: int where "EXIT_SUCCESS = 0"
definition EXIT_FAILURE :: int where "EXIT_FAILURE = 1"

subsection \<open>Floating point values\<close>

text \<open>
  A finite \<open>float\<close> or \<open>double\<close> is modelled by the real number it denotes. An operation
  whose result is stored in such a type computes the exact result and rounds it to the
  nearest representable value, ties to the even significand. \<open>fl p q\<close> is that rounding
  for a format with \<open>p\<close> significand bits whose smallest positive value is \<open>2\<^sup>-\<^sup>q\<close>
  (24 and 149 for \<open>float\<close>, 53 and 1074 for \<open>double\<close>). Overflow to infinity is not
  modelled: every value this program rounds is below \<open>2\<^sup>3\<^sup>2\<close> in magnitude. Each
  operation is rounded to the type of its operands. A compiler that keeps intermediate
  results in a wider format computes the same values wherever the roundings below are
  exact, which is the case for every temperature \<open>getTemp\<close> returns.
\<close>

definition rne :: "real \<Rightarrow> int" where
  "rne x = (let f = \<lfloor>x\<rfloor>; d = x - of_int f in
            if d < 1 / 2 then f
            else if 1 / 2 < d then f + 1
            else if even f then f else f + 1)"

definition ulp :: "nat \<Rightarrow> nat \<Rightarrow> real \<Rightarrow> real" where
  "ulp p q x = 2 ^ (floorlog 2 (nat \<lfloor>\<bar>x\<bar> * 2 ^ q\<rfloor>) - p) / 2 ^ q"

definition fl :: "nat \<Rightarrow> nat \<Rightarrow> real \<Rightarrow> real" where
  "fl p q x = of_int (rne (x / ulp p q x)) * ulp p q x"

definition to_float :: "real \<Rightarrow> real" where
  "to_float = fl 24 149"

definition to_double :: "real \<Rightarrow> real" where
  "to_double = fl 53 1074"

text \<open>Conversion of a floating point value to \<open>int\<close> truncates towards zero.\<close>

definition to_int :: "real \<Rightarrow> int" where
  "to_int x = (if 0 \<le> x then \<lfloor>x\<rfloor> else \<lceil>x\<rceil>)"

text \<open>\<open>floor\<close> of \<open>math.h\<close> takes and returns a \<open>double\<close>; a whole number of this
  size is representable, so nothing is rounded.\<close>

definition floor_double :: "real \<Rightarrow> real" where
  "floor_double x = of_int \<lfloor>x\<rfloor>"

text \<open>Conversion of an \<open>int\<close> to \<open>float\<close>, as in \<open>(float)temp\<close> and in the comparison of a
  \<open>float\<close> with an \<open>int\<close> constant.\<close>

definition float_of_int :: "int \<Rightarrow> real" where
  "float_of_int i = to_float (of_int i)"

subsection \<open>Events\<close>

text \<open>
  What the program does to the outside, in program order: text written to \<open>stderr\<close>, to
  the log file and to the PWM device, the two kinds of sleep, \<open>umask\<close> and \<open>close\<close>, and
  every call of \<open>setFanSpeed\<close> with the duty it was passed.
\<close>

datatype event =
    Stderr string
  | Log string
  | Pwm string
  | SetFanSpeed int
  | Sleep int
  | Usleep int
  | Umask int
  | Close int

text \<open>The text \<open>printf\<close> produces for \<open>%d\<close>.\<close>

fun digits10 :: "nat \<Rightarrow> string" where
  "digits10 n =
     (if n < 10 then [''0123456789'' ! n]
      else digits10 (n div 10) @ [''0123456789'' ! (n mod 10)])"

declare digits10.simps [simp del]

definition printf_d :: "int \<Rightarrow> string" where
  "printf_d i = (if i < 0 then CHR ''-'' # digits10 (nat (- i)) else digits10 (nat i))"

subsection \<open>\<open>getTemp\<close>\<close>

text \<open>
  The sensor file as one call of \<open>getTemp\<close> finds it: \<open>NoFile\<close> when \<open>fopen\<close> returns
  \<open>NULL\<close>, otherwise \<open>File r temp\<close> with \<open>r\<close> the value \<open>fscanf\<close> returns (the number of
  items converted, or \<open>EOF\<close>) and \<open>temp\<close> the content of the \<open>int\<close> variable after the
  call. The variable is read only when \<open>r\<close> is 1.
\<close>

datatype sensor_file = NoFile | File int "32 word"

definition getTemp :: "sensor_file \<Rightarrow> real \<times> event list" where
  "getTemp f =
     (case f of
        NoFile \<Rightarrow> (0, [Stderr ''failed to open temperature file\<newline>''])
      | File r temp \<Rightarrow> (if r = 1 then (float_of_int (sint temp), []) else (0, [])))"

subsection \<open>\<open>setFanSpeed\<close>\<close>

text \<open>The first argument says whether \<open>fopen\<close> of the PWM device for writing succeeds.\<close>

definition setFanSpeed :: "bool \<Rightarrow> int \<Rightarrow> event list" where
  "setFanSpeed can_open duty =
     SetFanSpeed duty #
     (if \<not> can_open then [Stderr ''failed to open pwm.0 for writing\<newline>'']
      else [Pwm (''50000,'' @ printf_d duty @ ''\<newline>'')])"

subsection \<open>The control loop\<close>

text \<open>
  The two variables that live across iterations. Both are C \<open>int\<close>s; \<open>runOn\<close> is
  decremented only when positive and otherwise assigned constants, and \<open>prevP\<close> is
  assigned values between 0 and 100, so neither can overflow and \<open>int\<close> is exact.
\<close>

record ctrl =
  runOn :: int
  prevP :: int

text \<open>What one iteration finds outside: the sensor file, and whether the PWM device opens
  for the kick and for the duty.\<close>

record tick_env =
  sensor :: sensor_file
  kick_open :: bool
  duty_open :: bool

text \<open>The interpolation between \<open>MIN_PWM\<close> and \<open>MAX_PWM\<close>: three \<open>float\<close> variables, a
  \<open>float\<close> product and quotient, a \<open>double\<close> sum with \<open>MIN_PWM\<close>, \<open>floor\<close>, and the
  conversion to \<open>int\<close>.\<close>

definition interpolate :: "real \<Rightarrow> int" where
  "interpolate temp =
     (let dt = to_float (temp - float_of_int LOW_TEMP);
          pRange = to_float (to_double (MAX_PWM - MIN_PWM));
          tRange = float_of_int (HIGH_TEMP - LOW_TEMP)
      in to_int (floor_double (to_double (to_float (to_float (pRange * dt) / tRange) + MIN_PWM))))"

definition pwm_wrong :: "int \<Rightarrow> event" where
  "pwm_wrong p = Stderr (''PWM calculation wrong, p is '' @ printf_d p @ ''\<newline>'')"

text \<open>The computation of \<open>p\<close> from the temperature: the new \<open>p\<close>, the new \<open>runOn\<close> and what
  was written to \<open>stderr\<close>.\<close>

definition calc_pwm :: "real \<Rightarrow> int \<Rightarrow> int \<times> int \<times> event list" where
  "calc_pwm temp runOn0 =
     (if temp < float_of_int LOW_TEMP then
        (if runOn0 > 0 then (to_int MIN_PWM, runOn0 - 1, []) else (0, runOn0, []))
      else if temp > float_of_int HIGH_TEMP then (to_int MAX_PWM, runOn0, [])
      else
        (let p0 = interpolate temp;
             (p1, e1) = (if of_int p0 > MAX_PWM then (to_int MAX_PWM, [pwm_wrong p0])
                         else (p0, []));
             (p2, e2) = (if of_int p1 < MIN_PWM then (to_int MIN_PWM, [pwm_wrong p1])
                         else (p1, []))
         in (p2, RUNONLOOPS, e1 @ e2)))"

text \<open>One iteration of the loop.\<close>

definition tick :: "tick_env \<Rightarrow> ctrl \<Rightarrow> ctrl \<times> event list" where
  "tick env s =
     (let (temp, e_temp) = getTemp (sensor env);
          (p, runOn1, e_calc) = calc_pwm temp (runOn s);
          e_kick = (if p > 0 \<and> prevP s = 0
                    then setFanSpeed (kick_open env) (to_int KICK_PWM) @ [Usleep KICK_TIME]
                    else []);
          e_set = setFanSpeed (duty_open env) p
      in (\<lparr>runOn = runOn1, prevP = p\<rparr>,
          e_temp @ e_calc @ e_kick @ e_set @ [Sleep LOOPTIME]))"

text \<open>The loop never ends. \<open>control_loop\<close> runs it for as many iterations as it is given
  environments, and returns the state and the events so far.\<close>

fun control_loop :: "tick_env list \<Rightarrow> ctrl \<Rightarrow> ctrl \<times> event list" where
  "control_loop [] s = (s, [])"
| "control_loop (env # envs) s =
     (let (s1, e1) = tick env s;
          (s2, e2) = control_loop envs s1
      in (s2, e1 @ e2))"

subsection \<open>\<open>main\<close>\<close>

text \<open>\<open>DEBUG\<close> is not defined in the source, so the part of \<open>main\<close> that daemonises is
  compiled and the \<open>printf\<close> of the loop is not.

  What start-up finds outside: the effective user id, what \<open>fork\<close>, \<open>setsid\<close> and
  \<open>chdir\<close> return, whether the log file opens, the sensor file, and whether the PWM
  device opens for the initial full speed run.\<close>

record start_env =
  euid :: int
  fork_pid :: int
  log_open :: bool
  start_sensor :: sensor_file
  setsid_sid :: int
  chdir_ret :: int
  warm_open :: bool

text \<open>The process either has exited with a status, or is still in the control loop after
  the iterations it was given.\<close>

datatype outcome = Exit int | Looping ctrl

definition main :: "start_env \<Rightarrow> tick_env list \<Rightarrow> outcome \<times> event list" where
  "main env envs =
     (if euid env \<noteq> 0 then (Exit 1, [Stderr ''Must be run as root\<newline>''])
      else if fork_pid env < 0 then (Exit EXIT_FAILURE, [])
      else if fork_pid env > 0 then (Exit EXIT_SUCCESS, [])
      else if \<not> log_open env then
        (Exit EXIT_FAILURE, [Umask 0, Stderr ''failed to open log file\<newline>''])
      else
        (let e_log = [Umask 0, Log ''pfand started\<newline>''];
             (temp, e_temp) = getTemp (start_sensor env)
         in if temp = 0 then
              (Exit EXIT_FAILURE,
               e_log @ e_temp @
               [Log ''unable to read the temperature (or it's zero degrees?), quitting\<newline>''])
            else if setsid_sid env < 0 then (Exit EXIT_FAILURE, e_log @ e_temp)
            else if chdir_ret env < 0 then (Exit EXIT_FAILURE, e_log @ e_temp)
            else
              (let e_start = [Close 0, Close 1, Close 2] @
                             setFanSpeed (warm_open env) (to_int MAX_PWM) @ [Sleep 5];
                   (s, e_loop) = control_loop envs \<lparr>runOn = 0, prevP = 0\<rparr>
               in (Looping s, e_log @ e_temp @ e_start @ e_loop))))"

text \<open>The duties passed to \<open>setFanSpeed\<close>, in order, and the events the fan sees: calls of
  \<open>setFanSpeed\<close> and the pause of the kick.\<close>

fun fan_calls :: "event list \<Rightarrow> int list" where
  "fan_calls [] = []"
| "fan_calls (SetFanSpeed d # es) = d # fan_calls es"
| "fan_calls (_ # es) = fan_calls es"

fun fan_view :: "event list \<Rightarrow> event list" where
  "fan_view [] = []"
| "fan_view (SetFanSpeed d # es) = SetFanSpeed d # fan_view es"
| "fan_view (Usleep n # es) = Usleep n # fan_view es"
| "fan_view (_ # es) = fan_view es"

text \<open>A read fails when the file does not open or \<open>fscanf\<close> does not convert one
  item.\<close>

definition read_fails :: "sensor_file \<Rightarrow> bool" where
  "read_fails f = (case f of NoFile \<Rightarrow> True | File r temp \<Rightarrow> r \<noteq> 1)"

text \<open>The texts written to the PWM device, in order.\<close>

fun pwm_writes :: "event list \<Rightarrow> string list" where
  "pwm_writes [] = []"
| "pwm_writes (Pwm txt # es) = txt # pwm_writes es"
| "pwm_writes (_ # es) = pwm_writes es"

text \<open>The range a commanded duty is meant to stay in: off, or between \<open>MIN_PWM\<close> and
  \<open>MAX_PWM\<close>.\<close>

definition duty_ok :: "int \<Rightarrow> bool" where
  "duty_ok d = (d = 0 \<or> (MIN_PWM \<le> of_int d \<and> of_int d \<le> MAX_PWM))"

text \<open>
  The texts written to \<open>stderr\<close> that reach an open descriptor. \<open>stderr\<close> is unbuffered
  and writes to descriptor 2. Once \<open>main\<close> has closed descriptors 0, 1 and 2 it has at most
  one file open at a time besides the log, and \<open>fopen\<close> gives that file the lowest free
  descriptor, 0; so descriptor 2 stays closed and every later write to \<open>stderr\<close> is lost.
\<close>

fun stderr_delivered :: "event list \<Rightarrow> string list" where
  "stderr_delivered [] = []"
| "stderr_delivered (Close fd # es) = (if fd = 2 then [] else stderr_delivered es)"
| "stderr_delivered (Stderr txt # es) = txt # stderr_delivered es"
| "stderr_delivered (_ # es) = stderr_delivered es"

section \<open>Properties of the rounding\<close>

text \<open>A value \<open>m / 2\<^sup>j\<close> with \<open>\<bar>m\<bar> < 2\<^sup>p\<close> is representable and is rounded to itself;
  an integer of any size is rounded to an integer.\<close>

lemma rne_of_int: "rne (of_int k) = k"
  by (simp add: rne_def)

lemma ulp_pos: "0 < ulp p q x"
  by (simp add: ulp_def)

lemma fl_exact:
  assumes "x / ulp p q x = of_int k"
  shows "fl p q x = x"
proof -
  have "fl p q x = of_int k * ulp p q x"
    unfolding fl_def assms rne_of_int ..
  also have "\<dots> = x / ulp p q x * ulp p q x"
    by (simp only: assms)
  also have "\<dots> = x"
    using ulp_pos [of p q x] by simp
  finally show ?thesis .
qed

lemma ulp_of_int:
  assumes "n \<noteq> 0"
  shows "ulp p q (of_int n) = 2 ^ (floorlog 2 (nat \<bar>n\<bar>) + q - p) / 2 ^ q"
proof -
  have "\<bar>real_of_int n\<bar> * 2 ^ q = of_int (\<bar>n\<bar> * 2 ^ q)"
    by simp
  then have "nat \<lfloor>\<bar>real_of_int n\<bar> * 2 ^ q\<rfloor> = nat (\<bar>n\<bar> * 2 ^ q)"
    by (simp only: floor_of_int)
  also have "\<dots> = nat \<bar>n\<bar> * 2 ^ q"
    by (simp add: nat_mult_distrib nat_power_eq)
  finally have "floorlog 2 (nat \<lfloor>\<bar>real_of_int n\<bar> * 2 ^ q\<rfloor>) = floorlog 2 (nat \<bar>n\<bar>) + q"
    using assms by simp
  then show ?thesis
    by (simp add: ulp_def)
qed

lemma fl_zero: "fl p q 0 = 0"
  by (simp add: fl_def rne_def)

lemma ulp_dyadic:
  assumes "m \<noteq> 0" and "j \<le> q"
  shows "ulp p q (of_int m / 2 ^ j) = 2 ^ (floorlog 2 (nat \<bar>m\<bar>) + (q - j) - p) / 2 ^ q"
proof -
  have q: "(2::real) ^ q = 2 ^ j * 2 ^ (q - j)"
    using assms(2) by (simp flip: power_add)
  have "\<bar>real_of_int m / 2 ^ j\<bar> * 2 ^ q = of_int (\<bar>m\<bar> * 2 ^ (q - j))"
    by (simp add: q abs_mult)
  then have "nat \<lfloor>\<bar>real_of_int m / 2 ^ j\<bar> * 2 ^ q\<rfloor> = nat (\<bar>m\<bar> * 2 ^ (q - j))"
    by (simp only: floor_of_int)
  also have "\<dots> = nat \<bar>m\<bar> * 2 ^ (q - j)"
    by (simp add: nat_mult_distrib nat_power_eq)
  finally have "floorlog 2 (nat \<lfloor>\<bar>real_of_int m / 2 ^ j\<bar> * 2 ^ q\<rfloor>)
      = floorlog 2 (nat \<bar>m\<bar>) + (q - j)"
    using assms(1) by simp
  then show ?thesis
    by (simp add: ulp_def)
qed

lemma fl_dyadic:
  assumes m: "\<bar>m\<bar> < 2 ^ p" and j: "j \<le> q"
  shows "fl p q (of_int m / 2 ^ j) = of_int m / 2 ^ j"
proof (cases "m = 0")
  case True
  then show ?thesis by (simp add: fl_zero)
next
  case False
  define d where "d = floorlog 2 (nat \<bar>m\<bar>) + (q - j) - p"
  have "nat \<bar>m\<bar> < 2 ^ p"
    using m by (simp add: nat_less_iff)
  then have "floorlog 2 (nat \<bar>m\<bar>) \<le> p"
    by (intro floorlog_leI) simp_all
  then have d: "d \<le> q - j"
    by (simp add: d_def)
  have u: "ulp p q (of_int m / 2 ^ j) = 2 ^ d / 2 ^ q"
    using ulp_dyadic [OF False j] by (simp add: d_def)
  have q: "(2::real) ^ q = 2 ^ j * (2 ^ d * 2 ^ (q - j - d))"
    using j d by (simp flip: power_add)
  have "(of_int m / 2 ^ j) / ulp p q (of_int m / 2 ^ j) = of_int (m * 2 ^ (q - j - d))"
    unfolding u by (simp add: q)
  then show ?thesis
    by (rule fl_exact)
qed

lemma to_float_int: "\<bar>i\<bar> < 2 ^ 24 \<Longrightarrow> to_float (of_int i) = of_int i"
  using fl_dyadic [of i 24 0 149] by (simp add: to_float_def)

lemma to_float_half: "\<bar>i\<bar> < 2 ^ 24 \<Longrightarrow> to_float (of_int i / 2) = of_int i / 2"
  using fl_dyadic [of i 24 1 149] by (simp add: to_float_def)

lemma to_double_int: "\<bar>i\<bar> < 2 ^ 53 \<Longrightarrow> to_double (of_int i) = of_int i"
  using fl_dyadic [of i 53 0 1074] by (simp add: to_double_def)

lemma to_double_half: "\<bar>i\<bar> < 2 ^ 53 \<Longrightarrow> to_double (of_int i / 2) = of_int i / 2"
  using fl_dyadic [of i 53 1 1074] by (simp add: to_double_def)

lemma fl_of_int_whole: "fl p q (of_int n) \<in> \<int>"
proof (cases "n = 0")
  case True
  then show ?thesis by (simp add: fl_zero)
next
  case False
  let ?b = "floorlog 2 (nat \<bar>n\<bar>)"
  show ?thesis
  proof (cases "p \<le> ?b")
    case True
    then have "?b + q - p = (?b - p) + q"
      by simp
    then have "ulp p q (of_int n) = 2 ^ (?b - p)"
      by (simp add: ulp_of_int [OF False] power_add)
    then have "fl p q (of_int n) = of_int (rne (of_int n / 2 ^ (?b - p)) * 2 ^ (?b - p))"
      by (simp add: fl_def)
    then show ?thesis
      by (simp only: Ints_of_int)
  next
    case False
    have "nat \<bar>n\<bar> < 2 ^ ?b"
      using \<open>n \<noteq> 0\<close> floorlog_bounds [of "nat \<bar>n\<bar>" 2] by simp
    also have "\<dots> < 2 ^ p"
      using False by simp
    finally have "\<bar>n\<bar> < 2 ^ p"
      by (simp add: nat_less_iff)
    then have "fl p q (of_int n) = of_int n"
      using fl_dyadic [of n p 0 q] by simp
    then show ?thesis
      by simp
  qed
qed

section \<open>Properties of the program\<close>

subsection \<open>Constants and conversions\<close>

lemma float_of_int_exact: "\<bar>i\<bar> < 2 ^ 24 \<Longrightarrow> float_of_int i = of_int i"
  by (simp add: float_of_int_def to_float_int)

lemma float_of_int_whole: "float_of_int i \<in> \<int>"
  by (simp add: float_of_int_def to_float_def fl_of_int_whole)

lemma float_LOW_TEMP: "float_of_int LOW_TEMP = 55"
  by (simp add: LOW_TEMP_def float_of_int_exact)

lemma float_HIGH_TEMP: "float_of_int HIGH_TEMP = 75"
  by (simp add: HIGH_TEMP_def float_of_int_exact)

lemma to_int_of_int: "to_int (of_int k) = k"
  by (simp add: to_int_def)

lemma to_int_consts:
  "to_int MIN_PWM = 50" "to_int MAX_PWM = 100" "to_int KICK_PWM = 70"
  by (simp_all add: to_int_def MIN_PWM_def MAX_PWM_def KICK_PWM_def)

lemma getTemp_whole: "fst (getTemp f) \<in> \<int>"
  by (cases f) (simp_all add: getTemp_def float_of_int_whole)

subsection \<open>The computation of the duty\<close>

text \<open>On a whole temperature in the band no step of the interpolation rounds.\<close>

lemma interpolate_whole:
  assumes "55 \<le> k" and "k \<le> 75"
  shows "interpolate (of_int k) = 50 + (5 * (k - 55)) div 2"
proof -
  have b0: "\<bar>k - 55\<bar> < 2 ^ 24" and b1: "\<bar>50 * (k - 55)\<bar> < 2 ^ 24"
    and b2: "\<bar>5 * (k - 55)\<bar> < 2 ^ 24" and b3: "\<bar>5 * (k - 55) + 100\<bar> < 2 ^ 53"
    using assms by simp_all
  have "real_of_int k - float_of_int LOW_TEMP = of_int (k - 55)"
    by (simp add: float_LOW_TEMP)
  then have dt: "to_float (of_int k - float_of_int LOW_TEMP) = of_int (k - 55)"
    by (simp only: to_float_int [OF b0])
  have "MAX_PWM - MIN_PWM = of_int 50"
    by (simp add: MAX_PWM_def MIN_PWM_def)
  then have pRange: "to_float (to_double (MAX_PWM - MIN_PWM)) = 50"
    using to_double_int [of 50] to_float_int [of 50] by simp
  have tRange: "float_of_int (HIGH_TEMP - LOW_TEMP) = 20"
    by (simp add: HIGH_TEMP_def LOW_TEMP_def float_of_int_exact)
  have "50 * real_of_int (k - 55) = of_int (50 * (k - 55))"
    by simp
  then have prod: "to_float (50 * of_int (k - 55)) = of_int (50 * (k - 55))"
    by (simp only: to_float_int [OF b1])
  have "real_of_int (50 * (k - 55)) / 20 = of_int (5 * (k - 55)) / 2"
    by (simp add: field_simps)
  then have quot: "to_float (of_int (50 * (k - 55)) / 20) = of_int (5 * (k - 55)) / 2"
    by (simp only: to_float_half [OF b2])
  have "real_of_int (5 * (k - 55)) / 2 + MIN_PWM = of_int (5 * (k - 55) + 100) / 2"
    by (simp add: MIN_PWM_def field_simps)
  then have sum: "to_double (of_int (5 * (k - 55)) / 2 + MIN_PWM) = of_int (5 * (k - 55) + 100) / 2"
    by (simp only: to_double_half [OF b3])
  have "\<lfloor>real_of_int (5 * (k - 55) + 100) / 2\<rfloor> = (5 * (k - 55) + 100) div 2"
    using floor_divide_of_int_eq [of "5 * (k - 55) + 100" 2, where ?'a = real] by simp
  also have "\<dots> = 50 + (5 * (k - 55)) div 2"
    by simp
  finally show ?thesis
    unfolding interpolate_def Let_def dt pRange tRange prod quot sum floor_double_def to_int_of_int .
qed

subsection \<open>Events of one iteration\<close>

lemma fan_calls_append: "fan_calls (xs @ ys) = fan_calls xs @ fan_calls ys"
  by (induction xs rule: fan_calls.induct) simp_all

lemma fan_view_append: "fan_view (xs @ ys) = fan_view xs @ fan_view ys"
  by (induction xs rule: fan_view.induct) simp_all

lemma fan_calls_getTemp: "fan_calls (snd (getTemp f)) = []"
  by (cases f) (simp_all add: getTemp_def)

lemma fan_view_getTemp: "fan_view (snd (getTemp f)) = []"
  by (cases f) (simp_all add: getTemp_def)

lemma fan_calls_setFanSpeed: "fan_calls (setFanSpeed b d) = [d]"
  by (simp add: setFanSpeed_def)

lemma fan_view_setFanSpeed: "fan_view (setFanSpeed b d) = [SetFanSpeed d]"
  by (simp add: setFanSpeed_def)

lemma fan_calls_calc: "fan_calls (snd (snd (calc_pwm t r))) = []"
  by (simp add: calc_pwm_def Let_def pwm_wrong_def split: prod.splits)

lemma fan_view_calc: "fan_view (snd (snd (calc_pwm t r))) = []"
  by (simp add: calc_pwm_def Let_def pwm_wrong_def split: prod.splits)

lemma tick_state:
  "fst (tick env s) =
     \<lparr>runOn = fst (snd (calc_pwm (fst (getTemp (sensor env))) (runOn s))),
      prevP = fst (calc_pwm (fst (getTemp (sensor env))) (runOn s))\<rparr>"
  by (simp add: tick_def Let_def split: prod.splits)

lemma tick_fan_view:
  "fan_view (snd (tick env s)) =
     (if prevP (fst (tick env s)) > 0 \<and> prevP s = 0
      then [SetFanSpeed (to_int KICK_PWM), Usleep KICK_TIME] else []) @
     [SetFanSpeed (prevP (fst (tick env s)))]"
proof -
  obtain t et where g: "getTemp (sensor env) = (t, et)"
    by (cases "getTemp (sensor env)")
  obtain p r ec where c: "calc_pwm t (runOn s) = (p, r, ec)"
    by (cases "calc_pwm t (runOn s)")
  have "fan_view et = []" "fan_view ec = []"
    using fan_view_getTemp [of "sensor env"] fan_view_calc [of t "runOn s"]
    by (simp_all add: g c)
  then show ?thesis
    by (simp add: tick_def g c fan_view_append fan_view_setFanSpeed)
qed

lemma calc_pwm_below:
  "t < 55 \<Longrightarrow> calc_pwm t r = (if r > 0 then (50, r - 1, []) else (0, r, []))"
  by (simp add: calc_pwm_def float_LOW_TEMP to_int_consts)

lemma calc_pwm_above:
  "75 < t \<Longrightarrow> calc_pwm t r = (100, r, [])"
  by (simp add: calc_pwm_def float_LOW_TEMP float_HIGH_TEMP to_int_consts)

lemma calc_pwm_band:
  assumes "55 \<le> k" and "k \<le> 75"
  shows "calc_pwm (of_int k) r = (50 + (5 * (k - 55)) div 2, RUNONLOOPS, [])"
proof -
  have "50 \<le> 50 + (5 * (k - 55)) div 2" "50 + (5 * (k - 55)) div 2 \<le> 100"
    using assms by simp_all
  then show ?thesis
    using assms
    by (simp add: calc_pwm_def float_LOW_TEMP float_HIGH_TEMP interpolate_whole
        MAX_PWM_def MIN_PWM_def)
qed

lemma calc_pwm_range:
  "fst (calc_pwm t r) = 0 \<or> (50 \<le> fst (calc_pwm t r) \<and> fst (calc_pwm t r) \<le> 100)"
  unfolding calc_pwm_def Let_def to_int_consts
  by (simp add: MAX_PWM_def MIN_PWM_def split: prod.splits)

lemma getTemp_reading: "\<bar>sint v\<bar> < 2 ^ 24 \<Longrightarrow> fst (getTemp (File 1 v)) = of_int (sint v)"
  by (simp add: getTemp_def float_of_int_exact)

lemma getTemp_fails: "read_fails f \<Longrightarrow> fst (getTemp f) = 0"
  by (cases f) (simp_all add: read_fails_def getTemp_def)

lemma tick_fan_calls:
  "fan_calls (snd (tick env s)) =
     (if prevP (fst (tick env s)) > 0 \<and> prevP s = 0 then [to_int KICK_PWM] else []) @
     [prevP (fst (tick env s))]"
proof -
  obtain t et where g: "getTemp (sensor env) = (t, et)"
    by (cases "getTemp (sensor env)")
  obtain p r ec where c: "calc_pwm t (runOn s) = (p, r, ec)"
    by (cases "calc_pwm t (runOn s)")
  have "fan_calls et = []" "fan_calls ec = []"
    using fan_calls_getTemp [of "sensor env"] fan_calls_calc [of t "runOn s"]
    by (simp_all add: g c)
  then show ?thesis
    by (simp add: tick_def g c fan_calls_append fan_calls_setFanSpeed)
qed

lemma tick_at:
  assumes "\<bar>sint v\<bar> < 2 ^ 24"
  shows "fst (tick \<lparr>sensor = File 1 v, kick_open = ko, duty_open = dop\<rparr> s) =
     \<lparr>runOn = fst (snd (calc_pwm (of_int (sint v)) (runOn s))),
      prevP = fst (calc_pwm (of_int (sint v)) (runOn s))\<rparr>"
  by (simp add: tick_state getTemp_reading [OF assms])

lemma band_floor:
  "\<lfloor>MIN_PWM + (MAX_PWM - MIN_PWM) * (of_int k - of_int LOW_TEMP) / (of_int HIGH_TEMP - of_int LOW_TEMP)\<rfloor>
     = 50 + (5 * (k - 55)) div 2"
proof -
  have "MIN_PWM + (MAX_PWM - MIN_PWM) * (of_int k - of_int LOW_TEMP) / (of_int HIGH_TEMP - of_int LOW_TEMP)
        = real_of_int (5 * (k - 55) + 100) / real_of_int 2"
    by (simp add: MIN_PWM_def MAX_PWM_def LOW_TEMP_def HIGH_TEMP_def field_simps)
  then show ?thesis
    by (simp only: floor_divide_of_int_eq)
qed

lemma tick_band:
  assumes "fst (getTemp (sensor env)) = of_int k" and "55 \<le> k" and "k \<le> 75"
  shows "fst (tick env s) = \<lparr>runOn = RUNONLOOPS, prevP = 50 + (5 * (k - 55)) div 2\<rparr>"
  by (simp add: tick_state assms calc_pwm_band)

lemma tick_duty_ok: "d \<in> set (fan_calls (snd (tick env s))) \<Longrightarrow> duty_ok d"
  using calc_pwm_range [of "fst (getTemp (sensor env))" "runOn s"]
  by (auto simp add: tick_fan_calls tick_state duty_ok_def to_int_consts MIN_PWM_def MAX_PWM_def
      split: if_splits)

lemma control_loop_duty_ok:
  "d \<in> set (fan_calls (snd (control_loop envs s))) \<Longrightarrow> duty_ok d"
proof (induction envs arbitrary: s)
  case Nil
  then show ?case by simp
next
  case (Cons env envs)
  obtain s1 e1 where t: "tick env s = (s1, e1)"
    by (cases "tick env s")
  obtain s2 e2 where c: "control_loop envs s1 = (s2, e2)"
    by (cases "control_loop envs s1")
  from Cons.prems have "d \<in> set (fan_calls e1) \<or> d \<in> set (fan_calls e2)"
    by (simp add: t c fan_calls_append)
  then show ?case
  proof
    assume "d \<in> set (fan_calls e1)"
    then show ?thesis
      using tick_duty_ok [of d env s] by (simp add: t)
  next
    assume "d \<in> set (fan_calls e2)"
    then show ?thesis
      using Cons.IH [of s1] by (simp add: c)
  qed
qed

lemma calc60: "calc_pwm 60 r = (62, 15, [])"
  using calc_pwm_band [of 60 r] by (simp add: RUNONLOOPS_def RUNONTIME_def LOOPTIME_def)

lemma getTemp60: "getTemp (File 1 60) = (60, [])"
  by (simp add: getTemp_def float_of_int_exact)

lemma pwm_writes_append: "pwm_writes (xs @ ys) = pwm_writes xs @ pwm_writes ys"
  by (induction xs rule: pwm_writes.induct) simp_all

lemma pwm_writes_getTemp: "pwm_writes (snd (getTemp f)) = []"
  by (cases f) (simp_all add: getTemp_def)

lemma pwm_writes_calc: "pwm_writes (snd (snd (calc_pwm t r))) = []"
  by (simp add: calc_pwm_def Let_def pwm_wrong_def split: prod.splits)

lemma pwm_writes_setFanSpeed:
  "pwm_writes (setFanSpeed b d) = (if b then [''50000,'' @ printf_d d @ ''\<newline>''] else [])"
  by (simp add: setFanSpeed_def)

lemma tick_pwm_writes:
  "pwm_writes (snd (tick env s)) =
     (if prevP (fst (tick env s)) > 0 \<and> prevP s = 0
      then pwm_writes (setFanSpeed (kick_open env) (to_int KICK_PWM)) else []) @
     pwm_writes (setFanSpeed (duty_open env) (prevP (fst (tick env s))))"
proof -
  obtain t et where g: "getTemp (sensor env) = (t, et)"
    by (cases "getTemp (sensor env)")
  obtain p r ec where c: "calc_pwm t (runOn s) = (p, r, ec)"
    by (cases "calc_pwm t (runOn s)")
  have "pwm_writes et = []" "pwm_writes ec = []"
    using pwm_writes_getTemp [of "sensor env"] pwm_writes_calc [of t "runOn s"]
    by (simp_all add: g c)
  then show ?thesis
    by (simp add: tick_def g c pwm_writes_append)
qed

lemma tick_reports_open_failure:
  "\<not> duty_open env \<Longrightarrow>
   Stderr ''failed to open pwm.0 for writing\<newline>'' \<in> set (snd (tick env s))"
  by (simp add: tick_def Let_def setFanSpeed_def split: prod.splits)

subsection \<open>Failed reads and failed opens\<close>

lemma getTemp80: "getTemp (File 1 80) = (80, [])"
  by (simp add: getTemp_def float_of_int_exact)

lemma getTemp_NoFile: "getTemp NoFile = (0, [Stderr ''failed to open temperature file\<newline>''])"
  by (simp add: getTemp_def)

lemma getTemp_no_item: "r \<noteq> 1 \<Longrightarrow> getTemp (File r v) = (0, [])"
  by (simp add: getTemp_def)

lemma printf_d_values:
  "printf_d 0 = ''0''" "printf_d 50 = ''50''" "printf_d 62 = ''62''"
  "printf_d 70 = ''70''" "printf_d 100 = ''100''"
  by (simp_all add: printf_d_def digits10.simps)

lemma main_open_failure_never_delivered:
  "''failed to open pwm.0 for writing\<newline>'' \<notin> set (stderr_delivered (snd (main env envs)))"
proof (cases "start_sensor env")
  case NoFile
  then show ?thesis
    by (simp add: main_def getTemp_def)
next
  case (File r v)
  then show ?thesis
    by (simp add: main_def getTemp_def Let_def split: prod.splits)
qed

lemma tick_failed_read:
  assumes "read_fails (sensor env)"
  shows "fst (tick env s) =
           (if runOn s > 0 then \<lparr>runOn = runOn s - 1, prevP = 50\<rparr>
            else \<lparr>runOn = runOn s, prevP = 0\<rparr>)"
    and "last (fan_calls (snd (tick env s))) = (if runOn s > 0 then 50 else 0)"
proof -
  have t: "fst (getTemp (sensor env)) = 0"
    using assms by (rule getTemp_fails)
  show 1: "fst (tick env s) =
           (if runOn s > 0 then \<lparr>runOn = runOn s - 1, prevP = 50\<rparr>
            else \<lparr>runOn = runOn s, prevP = 0\<rparr>)"
    by (simp add: tick_state t calc_pwm_below)
  show "last (fan_calls (snd (tick env s))) = (if runOn s > 0 then 50 else 0)"
    by (simp add: tick_fan_calls 1)
qed

section \<open>The claims\<close>

subsection \<open>C1: temperatures above \<open>HIGH_TEMP\<close>\<close>

text \<open>
  C1. For every temperature above \<open>HIGH_TEMP\<close> the step should command \<open>MAX_PWM\<close> and set
  the run-on counter to \<open>RUNONLOOPS\<close>. The loop commands \<open>MAX_PWM\<close> but assigns \<open>runOn\<close> only
  in the branch between the two thresholds: from the initial state a reading of 80 degrees
  leaves the counter at 0 and not at 15, and a following reading of 40 degrees switches
  the fan off at once, with no run-on.
\<close>

theorem C1_runOn_not_reset_above_high:
  "tick \<lparr>sensor = File 1 80, kick_open = True, duty_open = True\<rparr> \<lparr>runOn = 0, prevP = 0\<rparr>
     = (\<lparr>runOn = 0, prevP = 100\<rparr>,
        [SetFanSpeed 70, Pwm ''50000,70\<newline>'', Usleep 500000,
         SetFanSpeed 100, Pwm ''50000,100\<newline>'', Sleep 2])
   \<and> RUNONLOOPS = 15
   \<and> runOn (fst (tick \<lparr>sensor = File 1 80, kick_open = True, duty_open = True\<rparr>
                       \<lparr>runOn = 0, prevP = 0\<rparr>)) \<noteq> RUNONLOOPS
   \<and> tick \<lparr>sensor = File 1 40, kick_open = True, duty_open = True\<rparr> \<lparr>runOn = 0, prevP = 100\<rparr>
     = (\<lparr>runOn = 0, prevP = 0\<rparr>, [SetFanSpeed 0, Pwm ''50000,0\<newline>'', Sleep 2])"
  by (simp add: tick_def getTemp_def float_of_int_exact calc_pwm_above calc_pwm_below
      setFanSpeed_def to_int_consts KICK_TIME_def LOOPTIME_def RUNONLOOPS_def RUNONTIME_def
      printf_d_def digits10.simps)

subsection \<open>C2: a failed read inside the loop\<close>

text \<open>
  C2. On a tick where the read fails, the loop should keep the duty commanded before and
  leave its state unchanged. \<open>getTemp\<close> documents 0 as its answer when there was a problem,
  and \<open>main\<close> tests for it once, before the loop; inside the loop the 0 is used as a
  temperature. With readings of 80 degrees at start-up and on the first tick, a missing
  sensor file on the second tick makes \<open>main\<close> command 0, so the calls of \<open>setFanSpeed\<close> are
  100, 70, 100, 0 and \<open>prevP\<close> goes from 100 to 0. From \<open>runOn = 15\<close> and \<open>prevP = 62\<close> a
  failed read, by a missing file or by a file that does not parse, commands 50 and counts
  the run-on down to 14.
\<close>

theorem C2_failed_read_taken_as_temperature:
  "main \<lparr>euid = 0, fork_pid = 0, log_open = True, start_sensor = File 1 80,
         setsid_sid = 1, chdir_ret = 0, warm_open = True\<rparr>
        [\<lparr>sensor = File 1 80, kick_open = True, duty_open = True\<rparr>,
         \<lparr>sensor = NoFile, kick_open = True, duty_open = True\<rparr>]
     = (Looping \<lparr>runOn = 0, prevP = 0\<rparr>,
        [Umask 0, Log ''pfand started\<newline>'', Close 0, Close 1, Close 2,
         SetFanSpeed 100, Pwm ''50000,100\<newline>'', Sleep 5,
         SetFanSpeed 70, Pwm ''50000,70\<newline>'', Usleep 500000,
         SetFanSpeed 100, Pwm ''50000,100\<newline>'', Sleep 2,
         Stderr ''failed to open temperature file\<newline>'',
         SetFanSpeed 0, Pwm ''50000,0\<newline>'', Sleep 2])
   \<and> tick \<lparr>sensor = NoFile, kick_open = True, duty_open = True\<rparr> \<lparr>runOn = 15, prevP = 62\<rparr>
     = (\<lparr>runOn = 14, prevP = 50\<rparr>,
        [Stderr ''failed to open temperature file\<newline>'',
         SetFanSpeed 50, Pwm ''50000,50\<newline>'', Sleep 2])
   \<and> tick \<lparr>sensor = File 0 0, kick_open = True, duty_open = True\<rparr> \<lparr>runOn = 15, prevP = 62\<rparr>
     = (\<lparr>runOn = 14, prevP = 50\<rparr>, [SetFanSpeed 50, Pwm ''50000,50\<newline>'', Sleep 2])"
  by (simp add: main_def tick_def getTemp80 getTemp_NoFile getTemp_no_item
      calc_pwm_above calc_pwm_below setFanSpeed_def to_int_consts printf_d_values
      KICK_TIME_def LOOPTIME_def)

subsection \<open>C3: the kick\<close>

text \<open>
  C3. On a tick that starts with \<open>prevP = 0\<close> and computes a duty \<open>p > 0\<close>, the fan sees
  exactly the call with \<open>KICK_PWM\<close>, the pause of \<open>KICK_TIME\<close> microseconds and the call with
  \<open>p\<close>, in that order. On a tick that starts with \<open>prevP > 0\<close> the fan sees the one call
  with \<open>p\<close> and nothing else, whatever \<open>p\<close> is. The duty computed in a tick is the value
  it leaves in \<open>prevP\<close>.
\<close>

theorem C3_kick_sequence:
  "(prevP s = 0 \<and> 0 < prevP (fst (tick env s)) \<longrightarrow>
      fan_view (snd (tick env s)) =
        [SetFanSpeed (to_int KICK_PWM), Usleep KICK_TIME, SetFanSpeed (prevP (fst (tick env s)))])
   \<and> (0 < prevP s \<longrightarrow>
      fan_view (snd (tick env s)) = [SetFanSpeed (prevP (fst (tick env s)))])"
  by (simp add: tick_fan_view)

theorem C3_kick_sequence_witness:
  "(prevP \<lparr>runOn = 0, prevP = 0\<rparr> = 0
    \<and> 0 < prevP (fst (tick \<lparr>sensor = File 1 60, kick_open = True, duty_open = True\<rparr>
                       \<lparr>runOn = 0, prevP = 0\<rparr>))
    \<and> fan_view (snd (tick \<lparr>sensor = File 1 60, kick_open = True, duty_open = True\<rparr>
                       \<lparr>runOn = 0, prevP = 0\<rparr>))
        = [SetFanSpeed 70, Usleep 500000, SetFanSpeed 62])
   \<and> (0 < prevP \<lparr>runOn = 15, prevP = 62\<rparr>
    \<and> fan_view (snd (tick \<lparr>sensor = File 1 80, kick_open = True, duty_open = True\<rparr>
                       \<lparr>runOn = 15, prevP = 62\<rparr>))
        = [SetFanSpeed 100])"
  using C3_kick_sequence
    [of "\<lparr>runOn = 0, prevP = 0\<rparr>" "\<lparr>sensor = File 1 60, kick_open = True, duty_open = True\<rparr>"]
    C3_kick_sequence
    [of "\<lparr>runOn = 15, prevP = 62\<rparr>" "\<lparr>sensor = File 1 80, kick_open = True, duty_open = True\<rparr>"]
    calc_pwm_band [of 60 0]
  by (simp add: tick_at calc_pwm_above to_int_consts KICK_TIME_def)

subsection \<open>C4: temperatures below \<open>LOW_TEMP\<close>\<close>

text \<open>
  C4. For every temperature read that is below \<open>LOW_TEMP\<close>: with \<open>runOn = 0\<close> the tick commands
  duty 0; with \<open>runOn = k > 0\<close> it commands \<open>MIN_PWM\<close> and leaves the counter at \<open>k - 1\<close>.
\<close>

theorem C4_below_low:
  assumes "fst (getTemp (sensor env)) < of_int LOW_TEMP"
  shows "(runOn s = 0 \<longrightarrow>
            prevP (fst (tick env s)) = 0 \<and> runOn (fst (tick env s)) = 0
            \<and> last (fan_calls (snd (tick env s))) = 0)
       \<and> (0 < runOn s \<longrightarrow>
            prevP (fst (tick env s)) = to_int MIN_PWM
            \<and> runOn (fst (tick env s)) = runOn s - 1
            \<and> last (fan_calls (snd (tick env s))) = to_int MIN_PWM)"
proof -
  have "fst (getTemp (sensor env)) < 55"
    using assms by (simp add: LOW_TEMP_def)
  then show ?thesis
    by (simp add: tick_fan_calls) (simp add: tick_state calc_pwm_below to_int_consts)
qed

theorem C4_below_low_witness:
  "fst (getTemp (sensor \<lparr>sensor = File 1 40, kick_open = True, duty_open = True\<rparr>)) < of_int LOW_TEMP
   \<and> (runOn \<lparr>runOn = 0, prevP = 50\<rparr> = 0
      \<and> prevP (fst (tick \<lparr>sensor = File 1 40, kick_open = True, duty_open = True\<rparr>
                       \<lparr>runOn = 0, prevP = 50\<rparr>)) = 0)
   \<and> (0 < runOn \<lparr>runOn = 7, prevP = 50\<rparr>
      \<and> prevP (fst (tick \<lparr>sensor = File 1 40, kick_open = True, duty_open = True\<rparr>
                       \<lparr>runOn = 7, prevP = 50\<rparr>)) = 50
      \<and> runOn (fst (tick \<lparr>sensor = File 1 40, kick_open = True, duty_open = True\<rparr>
                       \<lparr>runOn = 7, prevP = 50\<rparr>)) = 6)"
proof -
  have h: "fst (getTemp (sensor \<lparr>sensor = File 1 40, kick_open = True, duty_open = True\<rparr>))
           < of_int LOW_TEMP"
    by (simp add: getTemp_reading LOW_TEMP_def)
  show ?thesis
    using h C4_below_low [OF h, of "\<lparr>runOn = 0, prevP = 50\<rparr>"]
      C4_below_low [OF h, of "\<lparr>runOn = 7, prevP = 50\<rparr>"]
    by (simp add: to_int_consts)
qed

subsection \<open>C5: the band between \<open>LOW_TEMP\<close> and \<open>HIGH_TEMP\<close>\<close>

text \<open>
  C5. For every temperature \<open>t\<close> read with \<open>LOW_TEMP \<le> t \<le> HIGH_TEMP\<close> the tick commands the
  floor of \<open>MIN_PWM + (MAX_PWM - MIN_PWM) * (t - LOW_TEMP) / (HIGH_TEMP - LOW_TEMP)\<close>, computed
  in the reals; at \<open>t = LOW_TEMP\<close> that is \<open>MIN_PWM\<close> and at \<open>t = HIGH_TEMP\<close> it is \<open>MAX_PWM\<close>.
  The temperatures are those \<open>getTemp\<close> can return, which is every temperature the loop
  ever sees; on them each rounding of the \<open>float\<close> and \<open>double\<close> arithmetic is exact and
  neither clamp fires.
\<close>

theorem C5_in_band:
  assumes "fst (getTemp (sensor env)) = t"
    and "of_int LOW_TEMP \<le> t" and "t \<le> of_int HIGH_TEMP"
  shows "prevP (fst (tick env s)) =
           \<lfloor>MIN_PWM + (MAX_PWM - MIN_PWM) * (t - of_int LOW_TEMP) / (of_int HIGH_TEMP - of_int LOW_TEMP)\<rfloor>
       \<and> last (fan_calls (snd (tick env s))) = prevP (fst (tick env s))
       \<and> (t = of_int LOW_TEMP \<longrightarrow> prevP (fst (tick env s)) = to_int MIN_PWM)
       \<and> (t = of_int HIGH_TEMP \<longrightarrow> prevP (fst (tick env s)) = to_int MAX_PWM)"
proof -
  from getTemp_whole [of "sensor env"] assms(1) obtain k where k: "t = of_int k"
    by (auto elim: Ints_cases)
  have b: "55 \<le> k" "k \<le> 75"
    using assms(2,3) by (simp_all add: k LOW_TEMP_def HIGH_TEMP_def)
  have s: "fst (tick env s) = \<lparr>runOn = RUNONLOOPS, prevP = 50 + (5 * (k - 55)) div 2\<rparr>"
    using assms(1) b by (intro tick_band) (simp_all add: k)
  have 1: "prevP (fst (tick env s)) =
      \<lfloor>MIN_PWM + (MAX_PWM - MIN_PWM) * (t - of_int LOW_TEMP) / (of_int HIGH_TEMP - of_int LOW_TEMP)\<rfloor>"
    unfolding k band_floor by (simp add: s)
  have 2: "last (fan_calls (snd (tick env s))) = prevP (fst (tick env s))"
    by (simp add: tick_fan_calls)
  have 3: "t = of_int LOW_TEMP \<longrightarrow> prevP (fst (tick env s)) = to_int MIN_PWM"
    by (simp add: k LOW_TEMP_def s to_int_consts)
  have 4: "t = of_int HIGH_TEMP \<longrightarrow> prevP (fst (tick env s)) = to_int MAX_PWM"
    by (simp add: k HIGH_TEMP_def s to_int_consts)
  from 1 2 3 4 show ?thesis by blast
qed

theorem C5_in_band_witness:
  "(fst (getTemp (sensor \<lparr>sensor = File 1 55, kick_open = True, duty_open = True\<rparr>)) = 55
    \<and> of_int LOW_TEMP \<le> (55::real) \<and> (55::real) \<le> of_int HIGH_TEMP
    \<and> (55::real) = of_int LOW_TEMP
    \<and> prevP (fst (tick \<lparr>sensor = File 1 55, kick_open = True, duty_open = True\<rparr>
                     \<lparr>runOn = 0, prevP = 0\<rparr>)) = 50)
   \<and> (fst (getTemp (sensor \<lparr>sensor = File 1 75, kick_open = True, duty_open = True\<rparr>)) = 75
    \<and> of_int LOW_TEMP \<le> (75::real) \<and> (75::real) \<le> of_int HIGH_TEMP
    \<and> (75::real) = of_int HIGH_TEMP
    \<and> prevP (fst (tick \<lparr>sensor = File 1 75, kick_open = True, duty_open = True\<rparr>
                     \<lparr>runOn = 0, prevP = 0\<rparr>)) = 100)
   \<and> (fst (getTemp (sensor \<lparr>sensor = File 1 60, kick_open = True, duty_open = True\<rparr>)) = 60
    \<and> of_int LOW_TEMP \<le> (60::real) \<and> (60::real) \<le> of_int HIGH_TEMP
    \<and> prevP (fst (tick \<lparr>sensor = File 1 60, kick_open = True, duty_open = True\<rparr>
                     \<lparr>runOn = 0, prevP = 0\<rparr>)) = 62)"
proof -
  have g: "fst (getTemp (sensor \<lparr>sensor = File 1 55, kick_open = True, duty_open = True\<rparr>)) = 55"
    "fst (getTemp (sensor \<lparr>sensor = File 1 75, kick_open = True, duty_open = True\<rparr>)) = 75"
    "fst (getTemp (sensor \<lparr>sensor = File 1 60, kick_open = True, duty_open = True\<rparr>)) = 60"
    by (simp_all add: getTemp_reading)
  have b: "of_int LOW_TEMP \<le> (55::real)" "(55::real) \<le> of_int HIGH_TEMP"
    "of_int LOW_TEMP \<le> (75::real)" "(75::real) \<le> of_int HIGH_TEMP"
    "of_int LOW_TEMP \<le> (60::real)" "(60::real) \<le> of_int HIGH_TEMP"
    by (simp_all add: LOW_TEMP_def HIGH_TEMP_def)
  show ?thesis
    using g b
      C5_in_band [OF g(1) b(1) b(2), of "\<lparr>runOn = 0, prevP = 0\<rparr>"]
      C5_in_band [OF g(2) b(3) b(4), of "\<lparr>runOn = 0, prevP = 0\<rparr>"]
      C5_in_band [OF g(3) b(5) b(6), of "\<lparr>runOn = 0, prevP = 0\<rparr>"]
    by (simp add: to_int_consts LOW_TEMP_def HIGH_TEMP_def MIN_PWM_def MAX_PWM_def)
qed

subsection \<open>C6: monotonicity in the band\<close>

text \<open>
  C6. For two temperatures read with \<open>LOW_TEMP \<le> t1 < t2 \<le> HIGH_TEMP\<close>, the duty commanded
  for \<open>t1\<close> is at most the duty commanded for \<open>t2\<close>, from whatever states the two ticks
  start.
\<close>

theorem C6_monotone:
  assumes "fst (getTemp (sensor env1)) = t1" and "fst (getTemp (sensor env2)) = t2"
    and "of_int LOW_TEMP \<le> t1" and "t1 < t2" and "t2 \<le> of_int HIGH_TEMP"
  shows "prevP (fst (tick env1 s1)) \<le> prevP (fst (tick env2 s2))"
proof -
  from getTemp_whole [of "sensor env1"] assms(1) obtain k1 where k1: "t1 = of_int k1"
    by (auto elim: Ints_cases)
  from getTemp_whole [of "sensor env2"] assms(2) obtain k2 where k2: "t2 = of_int k2"
    by (auto elim: Ints_cases)
  have b: "55 \<le> k1" "k1 < k2" "k2 \<le> 75"
    using assms(3-5) by (simp_all add: k1 k2 LOW_TEMP_def HIGH_TEMP_def)
  have "fst (tick env1 s1) = \<lparr>runOn = RUNONLOOPS, prevP = 50 + (5 * (k1 - 55)) div 2\<rparr>"
    using assms(1) b by (intro tick_band) (simp_all add: k1)
  moreover have "fst (tick env2 s2) = \<lparr>runOn = RUNONLOOPS, prevP = 50 + (5 * (k2 - 55)) div 2\<rparr>"
    using assms(2) b by (intro tick_band) (simp_all add: k2)
  moreover have "(5 * (k1 - 55)) div 2 \<le> (5 * (k2 - 55)) div 2"
    using b by (intro zdiv_mono1) simp_all
  ultimately show ?thesis by simp
qed

theorem C6_monotone_witness:
  "fst (getTemp (sensor \<lparr>sensor = File 1 60, kick_open = True, duty_open = True\<rparr>)) = 60
   \<and> fst (getTemp (sensor \<lparr>sensor = File 1 61, kick_open = True, duty_open = True\<rparr>)) = 61
   \<and> of_int LOW_TEMP \<le> (60::real) \<and> (60::real) < 61 \<and> (61::real) \<le> of_int HIGH_TEMP
   \<and> prevP (fst (tick \<lparr>sensor = File 1 60, kick_open = True, duty_open = True\<rparr>
                    \<lparr>runOn = 0, prevP = 0\<rparr>))
     \<le> prevP (fst (tick \<lparr>sensor = File 1 61, kick_open = True, duty_open = True\<rparr>
                    \<lparr>runOn = 3, prevP = 50\<rparr>))"
proof -
  have g: "fst (getTemp (sensor \<lparr>sensor = File 1 60, kick_open = True, duty_open = True\<rparr>)) = 60"
    "fst (getTemp (sensor \<lparr>sensor = File 1 61, kick_open = True, duty_open = True\<rparr>)) = 61"
    by (simp_all add: getTemp_reading)
  have b: "of_int LOW_TEMP \<le> (60::real)" "(60::real) < 61" "(61::real) \<le> of_int HIGH_TEMP"
    by (simp_all add: LOW_TEMP_def HIGH_TEMP_def)
  show ?thesis
    using g b C6_monotone [OF g(1) g(2) b(1) b(2) b(3),
        of "\<lparr>runOn = 0, prevP = 0\<rparr>" "\<lparr>runOn = 3, prevP = 50\<rparr>"]
    by simp
qed

subsection \<open>C7: the range of every commanded duty\<close>

text \<open>
  C7. Every duty passed to \<open>setFanSpeed\<close> in a run of \<open>main\<close>, by the initial full speed
  run, by a kick or by the loop, is 0 or lies between \<open>MIN_PWM\<close> and \<open>MAX_PWM\<close>. This holds
  for any number of iterations and any environment.
\<close>

theorem C7_duty_range:
  assumes "d \<in> set (fan_calls (snd (main env envs)))"
  shows "d = 0 \<or> (MIN_PWM \<le> of_int d \<and> of_int d \<le> MAX_PWM)"
proof -
  obtain s e where c: "control_loop envs \<lparr>runOn = 0, prevP = 0\<rparr> = (s, e)"
    by (cases "control_loop envs \<lparr>runOn = 0, prevP = 0\<rparr>")
  have "d = to_int MAX_PWM \<or> d \<in> set (fan_calls e)"
    using assms fan_calls_getTemp [of "start_sensor env"]
    by (simp add: main_def Let_def c fan_calls_append fan_calls_setFanSpeed
        split: if_splits prod.splits)
  then have "duty_ok d"
  proof
    assume "d = to_int MAX_PWM"
    then have "d = 100"
      by (simp only: to_int_consts)
    then show ?thesis
      by (simp add: duty_ok_def MIN_PWM_def MAX_PWM_def)
  next
    assume "d \<in> set (fan_calls e)"
    then show ?thesis
      using control_loop_duty_ok [of d envs "\<lparr>runOn = 0, prevP = 0\<rparr>"] by (simp add: c)
  qed
  then show ?thesis
    by (simp add: duty_ok_def)
qed

theorem C7_duty_range_witness:
  "fan_calls (snd (main \<lparr>euid = 0, fork_pid = 0, log_open = True, start_sensor = File 1 60,
                         setsid_sid = 1, chdir_ret = 0, warm_open = True\<rparr>
                        [\<lparr>sensor = File 1 60, kick_open = True, duty_open = True\<rparr>]))
     = [100, 70, 62]
   \<and> (62::int) \<in> set [100, 70, 62]
   \<and> ((62::int) = 0 \<or> (MIN_PWM \<le> of_int (62::int) \<and> of_int (62::int) \<le> MAX_PWM))"
proof -
  let ?m = "main \<lparr>euid = 0, fork_pid = 0, log_open = True, start_sensor = File 1 60,
                   setsid_sid = 1, chdir_ret = 0, warm_open = True\<rparr>
                  [\<lparr>sensor = File 1 60, kick_open = True, duty_open = True\<rparr>]"
  have f: "fan_calls (snd ?m) = [100, 70, 62]"
    by (simp add: main_def tick_def getTemp60 calc60 setFanSpeed_def to_int_consts)
  have h: "62 \<in> set (fan_calls (snd ?m))"
    by (simp only: f) simp
  have m: "(62::int) \<in> set [100, 70, 62]"
    by simp
  from f m C7_duty_range [OF h] show ?thesis
    by blast
qed

subsection \<open>C8: a failed read at start-up\<close>

text \<open>
  C8. If the read at start-up returns 0, \<open>main\<close> exits and never reaches the loop, and
  \<open>setFanSpeed\<close> is not called at all, not even for the initial full speed run. In the
  process that gets as far as the read (root, child of the \<open>fork\<close>, log file open) the
  exit status is \<open>EXIT_FAILURE\<close> and the last thing done is the message in the log.
\<close>

theorem C8_startup_read_failure:
  assumes "fst (getTemp (start_sensor env)) = 0"
  shows "(case fst (main env envs) of Exit c \<Rightarrow> True | Looping s \<Rightarrow> False)
       \<and> fan_calls (snd (main env envs)) = []
       \<and> (euid env = 0 \<and> fork_pid env = 0 \<and> log_open env \<longrightarrow>
            main env envs =
              (Exit EXIT_FAILURE,
               [Umask 0, Log ''pfand started\<newline>''] @ snd (getTemp (start_sensor env)) @
               [Log ''unable to read the temperature (or it's zero degrees?), quitting\<newline>'']))"
proof -
  obtain et where g: "getTemp (start_sensor env) = (0, et)"
    using assms by (cases "getTemp (start_sensor env)") simp
  have "fan_calls et = []"
    using fan_calls_getTemp [of "start_sensor env"] by (simp add: g)
  then show ?thesis
    by (simp add: main_def g fan_calls_append)
qed

theorem C8_startup_read_failure_witness:
  "fst (getTemp (start_sensor \<lparr>euid = 0, fork_pid = 0, log_open = True, start_sensor = NoFile,
                              setsid_sid = 1, chdir_ret = 0, warm_open = True\<rparr>)) = 0
   \<and> main \<lparr>euid = 0, fork_pid = 0, log_open = True, start_sensor = NoFile,
           setsid_sid = 1, chdir_ret = 0, warm_open = True\<rparr>
          [\<lparr>sensor = File 1 60, kick_open = True, duty_open = True\<rparr>]
       = (Exit 1,
          [Umask 0, Log ''pfand started\<newline>'',
           Stderr ''failed to open temperature file\<newline>'',
           Log ''unable to read the temperature (or it's zero degrees?), quitting\<newline>''])"
proof -
  let ?env = "\<lparr>euid = 0, fork_pid = 0, log_open = True, start_sensor = NoFile,
               setsid_sid = 1, chdir_ret = 0, warm_open = True\<rparr>"
  have h: "fst (getTemp (start_sensor ?env)) = 0"
    by (simp add: getTemp_def)
  show ?thesis
    using h C8_startup_read_failure [OF h, of "[\<lparr>sensor = File 1 60, kick_open = True, duty_open = True\<rparr>]"]
    by (simp add: getTemp_def EXIT_FAILURE_def)
qed

subsection \<open>C9: the PWM device does not open\<close>

text \<open>
  C9. When the PWM device cannot be opened, the failure should be logged and the command
  dropped without ending the loop or altering the controller state, and the next tick
  should retry. \<open>setFanSpeed\<close> does call \<open>fprintf\<close> on \<open>stderr\<close>, but \<open>main\<close> has closed
  descriptor 2 before its first call of \<open>setFanSpeed\<close>, so nothing is logged. In the run
  below the device does not open for the initial full speed run nor on the first tick,
  and opens on the second; the sensor reads 60 degrees throughout. The loop goes on, but
  no message is delivered; the first tick moves the state from \<open>runOn = 0\<close>, \<open>prevP = 0\<close>
  to \<open>runOn = 15\<close>, \<open>prevP = 62\<close> although no duty reached the fan; and the second tick
  therefore writes 62 to a fan at rest and never the kick.
\<close>

theorem C9_open_failure_not_logged:
  "main \<lparr>euid = 0, fork_pid = 0, log_open = True, start_sensor = File 1 60,
         setsid_sid = 1, chdir_ret = 0, warm_open = False\<rparr>
        [\<lparr>sensor = File 1 60, kick_open = False, duty_open = False\<rparr>,
         \<lparr>sensor = File 1 60, kick_open = True, duty_open = True\<rparr>]
     = (Looping \<lparr>runOn = 15, prevP = 62\<rparr>,
        [Umask 0, Log ''pfand started\<newline>'', Close 0, Close 1, Close 2,
         SetFanSpeed 100, Stderr ''failed to open pwm.0 for writing\<newline>'', Sleep 5,
         SetFanSpeed 70, Stderr ''failed to open pwm.0 for writing\<newline>'', Usleep 500000,
         SetFanSpeed 62, Stderr ''failed to open pwm.0 for writing\<newline>'', Sleep 2,
         SetFanSpeed 62, Pwm ''50000,62\<newline>'', Sleep 2])
   \<and> stderr_delivered
        (snd (main \<lparr>euid = 0, fork_pid = 0, log_open = True, start_sensor = File 1 60,
                    setsid_sid = 1, chdir_ret = 0, warm_open = False\<rparr>
                   [\<lparr>sensor = File 1 60, kick_open = False, duty_open = False\<rparr>,
                    \<lparr>sensor = File 1 60, kick_open = True, duty_open = True\<rparr>])) = []
   \<and> fst (tick \<lparr>sensor = File 1 60, kick_open = False, duty_open = False\<rparr>
                \<lparr>runOn = 0, prevP = 0\<rparr>) = \<lparr>runOn = 15, prevP = 62\<rparr>
   \<and> pwm_writes
        (snd (main \<lparr>euid = 0, fork_pid = 0, log_open = True, start_sensor = File 1 60,
                    setsid_sid = 1, chdir_ret = 0, warm_open = False\<rparr>
                   [\<lparr>sensor = File 1 60, kick_open = False, duty_open = False\<rparr>,
                    \<lparr>sensor = File 1 60, kick_open = True, duty_open = True\<rparr>]))
       = [''50000,62\<newline>'']"
  by (simp add: main_def tick_def getTemp60 calc60 setFanSpeed_def to_int_consts printf_d_values
      KICK_TIME_def LOOPTIME_def)

subsection \<open>C10: whole degrees\<close>

text \<open>
  C10. Every value \<open>getTemp\<close> returns is a whole number: on success it is the \<open>int\<close> that
  \<open>fscanf\<close> stored, converted to \<open>float\<close>. A file that opens but from which \<open>fscanf\<close> does
  not convert one item gives 0, the same value as a file that does not open.
\<close>

theorem C10_whole_degrees:
  "fst (getTemp f) \<in> \<int>
   \<and> fst (getTemp (File 1 temp)) = float_of_int (sint temp)
   \<and> (r \<noteq> 1 \<longrightarrow> fst (getTemp (File r temp)) = 0
                 \<and> fst (getTemp (File r temp)) = fst (getTemp NoFile))"
  by (simp add: getTemp_whole) (simp add: getTemp_def)

theorem C10_whole_degrees_witness:
  "fst (getTemp (File 1 60)) \<in> \<int>
   \<and> (0::int) \<noteq> 1
   \<and> fst (getTemp (File 0 60)) = 0
   \<and> fst (getTemp (File 0 60)) = fst (getTemp NoFile)"
proof -
  have n: "(0::int) \<noteq> 1"
    by simp
  from C10_whole_degrees [of "File 1 60" 60 0] n show ?thesis
    by blast
qed

end
